theory Spec2Isabelle
  imports Complex_Main "HOL-Library.Log_Nat"
begin

section \<open>Python values used by the handlers\<close>

subsection \<open>Strings\<close>

text \<open>
  A Python \<open>str\<close> is a list of code points. Every literal of \<open>app.py\<close> lies in Latin-1, so
  a code point is one \<open>char\<close> here (\<open>CHR 0xF1\<close> is n with tilde), and \<open>length\<close> counts what
  Python's \<open>len\<close> counts. Code points above 255 are outside the model.
\<close>

abbreviation a_acute :: char where "a_acute \<equiv> CHR 0xE1"
abbreviation e_acute :: char where "e_acute \<equiv> CHR 0xE9"
abbreviation i_acute :: char where "i_acute \<equiv> CHR 0xED"
abbreviation o_acute :: char where "o_acute \<equiv> CHR 0xF3"
abbreviation n_tilde :: char where "n_tilde \<equiv> CHR 0xF1"

definition code_point :: "char \<Rightarrow> nat" where
  "code_point c = of_char c"

text \<open>\<open>str.strip()\<close> removes the characters for which \<open>str.isspace\<close> holds.\<close>

definition is_space :: "char \<Rightarrow> bool" where
  "is_space c =
     (let n = code_point c
      in (9 \<le> n \<and> n \<le> 13) \<or> (28 \<le> n \<and> n \<le> 32) \<or> n = 133 \<or> n = 160)"

definition py_strip :: "string \<Rightarrow> string" where
  "py_strip s = rev (dropWhile is_space (rev (dropWhile is_space s)))"

text \<open>\<open>s.replace(",", ".")\<close>.\<close>

definition replace_comma :: "string \<Rightarrow> string" where
  "replace_comma s = map (\<lambda>c. if c = CHR '','' then CHR ''.'' else c) s"

text \<open>\<open>s.startswith(p)\<close>.\<close>

definition startswith :: "string \<Rightarrow> string \<Rightarrow> bool" where
  "startswith s p = (take (length p) s = p)"

definition is_digit :: "char \<Rightarrow> bool" where
  "is_digit c = (48 \<le> code_point c \<and> code_point c \<le> 57)"

definition digit_val :: "char \<Rightarrow> nat" where
  "digit_val c = code_point c - 48"

definition digits_val :: "string \<Rightarrow> int" where
  "digits_val ds = foldl (\<lambda>acc c. 10 * acc + int (digit_val c)) 0 ds"

definition digit_char :: "nat \<Rightarrow> char" where
  "digit_char d = char_of (48 + d)"

text \<open>\<open>str(n)\<close> for a non-negative integer (primary keys are positive).\<close>

function str_nat :: "nat \<Rightarrow> string" where
  "str_nat n = (if n < 10 then [digit_char n] else str_nat (n div 10) @ [digit_char (n mod 10)])"
  by pat_completeness auto
termination
  by (relation "measure id") auto

declare str_nat.simps [simp del]

subsection \<open>Floats\<close>

text \<open>
  A Python \<open>float\<close> is an IEEE 754 binary64 value: a finite value is kept as the rational it
  denotes, and every operation rounds its exact result to the nearest representable value,
  ties to even (\<open>fl\<close>). Negative zero is identified with zero: the handlers only add,
  subtract, round, compare with 0 and test truth, and none of these tells the two apart.
\<close>

datatype pyfloat = Fin rat | PInf | NInf | NaN

definition pow2 :: "int \<Rightarrow> rat" where
  "pow2 k = (if 0 \<le> k then 2 ^ nat k else 1 / 2 ^ nat (- k))"

definition round_half_even :: "rat \<Rightarrow> int" where
  "round_half_even q =
     (let f = \<lfloor>q\<rfloor>; d = q - of_int f
      in if d < 1 / 2 then f else if 1 / 2 < d then f + 1 else if even f then f else f + 1)"

text \<open>For \<open>q > 0\<close>, \<open>ilog2 q\<close> is the integer \<open>e\<close> with \<open>2^e \<le> q < 2^(e+1)\<close>.\<close>

definition ilog2 :: "rat \<Rightarrow> int" where
  "ilog2 q =
     (let (a, b) = quotient_of q; k = bitlen a - bitlen b
      in if pow2 k \<le> q then k else k - 1)"

text \<open>
  Rounding to binary64: 53 significant bits, least exponent \<open>-1074\<close> (subnormals), overflow
  to infinity when the rounded value reaches \<open>2^1024\<close>, that is, when its \<open>ilog2\<close> reaches
  1024.
\<close>

definition fl :: "rat \<Rightarrow> pyfloat" where
  "fl q =
     (if q = 0 then Fin 0
      else let ex = max (ilog2 \<bar>q\<bar> - 52) (- 1074);
               v = of_int (round_half_even (q / pow2 ex)) * pow2 ex
           in if v \<noteq> 0 \<and> 1024 \<le> ilog2 \<bar>v\<bar> then (if 0 < q then PInf else NInf)
              else Fin v)"

fun pf_neg :: "pyfloat \<Rightarrow> pyfloat" where
  "pf_neg (Fin a) = Fin (- a)"
| "pf_neg PInf = NInf"
| "pf_neg NInf = PInf"
| "pf_neg NaN = NaN"

fun pf_add :: "pyfloat \<Rightarrow> pyfloat \<Rightarrow> pyfloat" where
  "pf_add (Fin a) (Fin b) = fl (a + b)"
| "pf_add NaN _ = NaN"
| "pf_add _ NaN = NaN"
| "pf_add PInf NInf = NaN"
| "pf_add NInf PInf = NaN"
| "pf_add PInf _ = PInf"
| "pf_add _ PInf = PInf"
| "pf_add NInf _ = NInf"
| "pf_add _ NInf = NInf"

definition pf_sub :: "pyfloat \<Rightarrow> pyfloat \<Rightarrow> pyfloat" where
  "pf_sub a b = pf_add a (pf_neg b)"

text \<open>\<open>x > 0\<close> and \<open>x <= 0\<close>: both are false on nan.\<close>

fun pf_gt0 :: "pyfloat \<Rightarrow> bool" where
  "pf_gt0 (Fin a) = (0 < a)"
| "pf_gt0 PInf = True"
| "pf_gt0 NInf = False"
| "pf_gt0 NaN = False"

fun pf_le0 :: "pyfloat \<Rightarrow> bool" where
  "pf_le0 (Fin a) = (a \<le> 0)"
| "pf_le0 PInf = False"
| "pf_le0 NInf = True"
| "pf_le0 NaN = False"

text \<open>Truth value of a float: only zero is false (nan and the infinities are true).\<close>

definition pf_truthy :: "pyfloat \<Rightarrow> bool" where
  "pf_truthy x = (x \<noteq> Fin 0)"

text \<open>\<open>x or 0.0\<close> for a float, and for an optional float (\<open>None or 0.0\<close> is \<open>0.0\<close>).\<close>

definition pf_or0 :: "pyfloat \<Rightarrow> pyfloat" where
  "pf_or0 x = (if pf_truthy x then x else Fin 0)"

definition opt_or0 :: "pyfloat option \<Rightarrow> pyfloat" where
  "opt_or0 x = (case x of None \<Rightarrow> Fin 0 | Some v \<Rightarrow> pf_or0 v)"

text \<open>\<open>x and x > 0\<close> for an optional float.\<close>

definition opt_pos :: "pyfloat option \<Rightarrow> bool" where
  "opt_pos x = (case x of None \<Rightarrow> False | Some v \<Rightarrow> pf_truthy v \<and> pf_gt0 v)"

text \<open>
  \<open>round(x, 2)\<close>: the exact value is rounded to two decimals, ties to even, and the decimal is
  converted back to the nearest float; nan and the infinities round to themselves.
\<close>

fun py_round2 :: "pyfloat \<Rightarrow> pyfloat" where
  "py_round2 (Fin a) = fl (of_int (round_half_even (a * 100)) / 100)"
| "py_round2 x = x"

text \<open>
  \<open>sum(...)\<close> over floats: starts from 0 and adds from left to right (the plain loop of
  CPython up to 3.11).
\<close>

definition py_sum :: "pyfloat list \<Rightarrow> pyfloat" where
  "py_sum xs = foldl pf_add (Fin 0) xs"

subsection \<open>The builtin \<open>float(str)\<close>\<close>

text \<open>
  \<open>float\<close> strips blanks, accepts an optional sign followed by \<open>inf\<close>, \<open>infinity\<close> or \<open>nan\<close> in
  any case, or by a decimal number with an optional exponent; single underscores may
  separate digits. The decimal is converted to the nearest float. \<open>None\<close> stands for
  \<open>ValueError\<close>.
\<close>

definition float_space :: "char \<Rightarrow> bool" where
  "float_space c =
     (let n = code_point c in (9 \<le> n \<and> n \<le> 13) \<or> n = 32 \<or> n = 133 \<or> n = 160)"

fun strip_underscores :: "char \<Rightarrow> string \<Rightarrow> string option" where
  "strip_underscores prev [] = (if prev = CHR ''_'' then None else Some [])"
| "strip_underscores prev (c # cs) =
     (if c = CHR ''_'' then
        (if is_digit prev then strip_underscores c cs else None)
      else if prev = CHR ''_'' \<and> \<not> is_digit c then None
      else map_option ((#) c) (strip_underscores c cs))"

definition ascii_lower :: "char \<Rightarrow> char" where
  "ascii_lower c =
     (let n = code_point c in if 65 \<le> n \<and> n \<le> 90 then char_of (n + 32) else c)"

text \<open>The exponent part: empty, or \<open>e\<close>/\<open>E\<close>, an optional sign and at least one digit.\<close>

definition parse_exponent :: "string \<Rightarrow> int option" where
  "parse_exponent s =
     (case s of
        [] \<Rightarrow> Some 0
      | c # r \<Rightarrow>
          if c = CHR ''e'' \<or> c = CHR ''E'' then
            (let (neg, ds) =
                   (case r of
                      [] \<Rightarrow> (False, [])
                    | d # r' \<Rightarrow>
                        if d = CHR ''-'' then (True, r')
                        else if d = CHR ''+'' then (False, r') else (False, r))
             in if ds \<noteq> [] \<and> list_all is_digit ds
                then Some (if neg then - digits_val ds else digits_val ds)
                else None)
          else None)"

definition pow10 :: "int \<Rightarrow> rat" where
  "pow10 k = (if 0 \<le> k then 10 ^ nat k else 1 / 10 ^ nat (- k))"

definition parse_number :: "string \<Rightarrow> rat option" where
  "parse_number s =
     (let ip = takeWhile is_digit s;
          r1 = dropWhile is_digit s;
          (fp, r2) =
            (case r1 of
               [] \<Rightarrow> ([], [])
             | c # r \<Rightarrow>
                 if c = CHR ''.'' then (takeWhile is_digit r, dropWhile is_digit r)
                 else ([], r1))
      in if ip = [] \<and> fp = [] then None
         else (case parse_exponent r2 of
                 None \<Rightarrow> None
               | Some ex \<Rightarrow>
                   Some (of_int (digits_val (ip @ fp)) * pow10 (ex - int (length fp)))))"

definition py_float :: "string \<Rightarrow> pyfloat option" where
  "py_float s0 =
     (let s1 = rev (dropWhile float_space (rev (dropWhile float_space s0)))
      in case (if CHR ''_'' \<in> set s1 then strip_underscores (CHR 0x00) s1 else Some s1) of
           None \<Rightarrow> None
         | Some s \<Rightarrow>
             (let (neg, r) =
                    (case s of
                       [] \<Rightarrow> (False, [])
                     | c # r' \<Rightarrow>
                         if c = CHR ''-'' then (True, r')
                         else if c = CHR ''+'' then (False, r') else (False, s));
                  w = map ascii_lower r
              in if w = ''inf'' \<or> w = ''infinity'' then Some (if neg then NInf else PInf)
                 else if w = ''nan'' then Some NaN
                 else (case parse_number r of
                         None \<Rightarrow> None
                       | Some q \<Rightarrow> Some (fl (if neg then - q else q)))))"

subsection \<open>\<open>parse_float\<close> (app.py, line 164)\<close>

definition parse_float :: "string option \<Rightarrow> pyfloat option" where
  "parse_float val =
     (case val of
        None \<Rightarrow> None
      | Some v \<Rightarrow> if py_strip v = [] then None else py_float (replace_comma v))"

section \<open>The database\<close>

text \<open>
  One record per model class of \<open>app.py\<close>, one list per table, rows in insertion order.
  Field names carry a table prefix (\<open>ro_estado\<close> is \<open>RepairOrder.estado\<close>). The timestamp
  columns are left out: a row created later stands later in its table and has a larger
  primary key, and that order stands for creation time. The tables \<open>Settings\<close> and \<open>User\<close>
  are left out as well: the handlers that write them (\<open>settings_save\<close>, \<open>get_settings\<close>) write
  nothing else, and no handler below reads them. Column length limits are not modelled.
\<close>

record client =
  cl_id :: nat
  cl_nombre :: string
  cl_telefono :: string
  cl_email :: string
  cl_direccion :: string
  cl_dni :: "string option"

record repair_order =
  ro_id :: nat
  ro_client_id :: nat
  ro_marca :: string
  ro_modelo :: string
  ro_imei :: string
  ro_accesorios :: string
  ro_clave_desbloqueo :: string
  ro_problema_reportado :: string
  ro_diagnostico :: string
  ro_costo_estimado :: "pyfloat option"
  ro_senia :: "pyfloat option"
  ro_estado :: string
  ro_token_publico :: string

record status_history =
  sh_id :: nat
  sh_order_id :: nat
  sh_estado :: string
  sh_nota :: string

record part =
  pt_id :: nat
  pt_order_id :: nat
  pt_descripcion :: string
  pt_costo :: pyfloat

record cash_entry =
  ce_id :: nat
  ce_tipo :: string
  ce_concepto :: string
  ce_monto :: pyfloat
  ce_order_id :: "nat option"

record db =
  clients :: "client list"
  orders :: "repair_order list"
  historial :: "status_history list"
  repuestos :: "part list"
  caja :: "cash_entry list"

definition empty_db :: db where
  "empty_db = \<lparr>clients = [], orders = [], historial = [], repuestos = [], caja = []\<rparr>"

definition ORDER_STATES :: "(string \<times> string) list" where
  "ORDER_STATES =
     [(''recibido'', ''Recibido''),
      (''diagnostico'', ''Diagn'' @ [o_acute] @ ''stico''),
      (''en_proceso'', ''En proceso''),
      (''esperando_repuestos'', ''Esperando repuestos''),
      (''listo'', ''Listo para entregar''),
      (''entregado'', ''Entregado''),
      (''cancelado'', ''Cancelado'')]"

text \<open>\<open>x in dict(ORDER_STATES)\<close>, where \<open>x\<close> may be \<open>None\<close> (a missing form field).\<close>

definition in_order_states :: "string option \<Rightarrow> bool" where
  "in_order_states x = (case x of None \<Rightarrow> False | Some s \<Rightarrow> s \<in> set (map fst ORDER_STATES))"

text \<open>The primary key given to a new row: one more than the largest key of the table.\<close>

definition next_id :: "nat list \<Rightarrow> nat" where
  "next_id ids = Suc (fold max ids 0)"

text \<open>
  \<open>Model.query.get(x)\<close> with the text of a form field: the row whose key is the number the
  text denotes, \<open>None\<close> when the field is missing, is no decimal numeral, or no row has
  that key.
\<close>

definition nat_of_str :: "string \<Rightarrow> nat option" where
  "nat_of_str s = (if s \<noteq> [] \<and> list_all is_digit s then Some (nat (digits_val s)) else None)"

definition query_get :: "('a \<Rightarrow> nat) \<Rightarrow> 'a list \<Rightarrow> string option \<Rightarrow> 'a option" where
  "query_get key rows x =
     (case x of
        None \<Rightarrow> None
      | Some s \<Rightarrow>
          (case nat_of_str s of None \<Rightarrow> None | Some n \<Rightarrow> find (\<lambda>r. key r = n) rows))"

text \<open>\<open>order.movimientos_caja\<close>: the cash entries linked to the order.\<close>

definition movimientos_caja :: "db \<Rightarrow> repair_order \<Rightarrow> cash_entry list" where
  "movimientos_caja d order = filter (\<lambda>m. ce_order_id m = Some (ro_id order)) (caja d)"

text \<open>\<open>order.historial\<close>, oldest first.\<close>

definition historial_de :: "db \<Rightarrow> nat \<Rightarrow> status_history list" where
  "historial_de d oid = filter (\<lambda>h. sh_order_id h = oid) (historial d)"

text \<open>\<open>db.session.add(CashEntry(...))\<close> and \<open>db.session.add(StatusHistory(...))\<close>.\<close>

definition add_cash_entry :: "string \<Rightarrow> string \<Rightarrow> pyfloat \<Rightarrow> nat option \<Rightarrow> db \<Rightarrow> db" where
  "add_cash_entry tipo concepto monto oid d =
     d\<lparr>caja := caja d @
          [\<lparr>ce_id = next_id (map ce_id (caja d)), ce_tipo = tipo, ce_concepto = concepto,
            ce_monto = monto, ce_order_id = oid\<rparr>]\<rparr>"

definition add_status_history :: "nat \<Rightarrow> string \<Rightarrow> string \<Rightarrow> db \<Rightarrow> db" where
  "add_status_history oid estado nota d =
     d\<lparr>historial := historial d @
          [\<lparr>sh_id = next_id (map sh_id (historial d)), sh_order_id = oid, sh_estado = estado,
            sh_nota = nota\<rparr>]\<rparr>"

section \<open>The request handlers\<close>

text \<open>
  \<open>request.form\<close> is a map from field names to texts. A handler takes the form and the
  database and returns its response and the database after its commits. \<open>Redirect\<close> carries
  the endpoint, the flashed message and its category; \<open>NotFound\<close> is \<open>get_or_404\<close> failing;
  \<open>ServerError\<close> is a commit that violates the unique constraint on \<open>token_publico\<close>.
  The user is taken to be logged in.
\<close>

type_synonym form = "string \<rightharpoonup> string"

definition form_get :: "form \<Rightarrow> string \<Rightarrow> string \<Rightarrow> string" where
  "form_get f k dflt = (case f k of None \<Rightarrow> dflt | Some v \<Rightarrow> v)"

datatype response = NotFound | ServerError | Redirect string string string

subsection \<open>Clients\<close>

definition client_create :: "form \<Rightarrow> db \<Rightarrow> response \<times> db" where
  "client_create f d =
     (let nombre = py_strip (form_get f ''nombre'' []);
          telefono = py_strip (form_get f ''telefono'' []);
          email = py_strip (form_get f ''email'' []);
          direccion = py_strip (form_get f ''direccion'' []);
          dni = py_strip (form_get f ''dni'' [])
      in if nombre = [] then
           (Redirect ''client_new_form'' ''El nombre es obligatorio'' ''danger'', d)
         else if dni = [] then
           (Redirect ''client_new_form'' ''El DNI es obligatorio'' ''danger'', d)
         else
           (Redirect ''clients_list'' ''Cliente creado'' ''success'',
            d\<lparr>clients := clients d @
                 [\<lparr>cl_id = next_id (map cl_id (clients d)), cl_nombre = nombre,
                   cl_telefono = telefono, cl_email = email, cl_direccion = direccion,
                   cl_dni = Some dni\<rparr>]\<rparr>))"

definition client_update :: "nat \<Rightarrow> form \<Rightarrow> db \<Rightarrow> response \<times> db" where
  "client_update client_id f d =
     (case find (\<lambda>c. cl_id c = client_id) (clients d) of
        None \<Rightarrow> (NotFound, d)
      | Some cl \<Rightarrow>
          (let nombre = py_strip (form_get f ''nombre'' []);
               telefono = py_strip (form_get f ''telefono'' []);
               email = py_strip (form_get f ''email'' []);
               direccion = py_strip (form_get f ''direccion'' []);
               dni = py_strip (form_get f ''dni'' [])
           in if nombre = [] then
                (Redirect ''client_edit_form'' ''El nombre es obligatorio'' ''danger'', d)
              else if dni = [] then
                (Redirect ''client_edit_form'' ''El DNI es obligatorio'' ''danger'', d)
              else
                (Redirect ''clients_list'' ''Cliente actualizado'' ''success'',
                 d\<lparr>clients :=
                      map (\<lambda>c. if cl_id c = client_id
                                then c\<lparr>cl_nombre := nombre, cl_telefono := telefono,
                                       cl_email := email, cl_direccion := direccion,
                                       cl_dni := Some dni\<rparr>
                                else c) (clients d)\<rparr>)))"

subsection \<open>Orders\<close>

text \<open>
  \<open>order_create\<close> (line 406). \<open>tok\<close> is the value \<open>gen_token(10)\<close> draws for the new row.
  The three commits of the handler (order, history entry, deposit entry) are taken
  together.
\<close>

definition order_create :: "form \<Rightarrow> string \<Rightarrow> db \<Rightarrow> response \<times> db" where
  "order_create f tok d =
     (case query_get cl_id (clients d) (f ''client_id'') of
        None \<Rightarrow>
          (Redirect ''order_new_form''
             (''Debe seleccionar un cliente v'' @ [a_acute] @ ''lido.'') ''danger'', d)
      | Some cl \<Rightarrow>
          (let marca = py_strip (form_get f ''marca'' []);
               modelo = py_strip (form_get f ''modelo'' []);
               problema = py_strip (form_get f ''problema_reportado'' [])
           in if marca = [] \<or> modelo = [] \<or> problema = [] then
                (Redirect ''order_new_form''
                   ''Marca, modelo y problema reportado son obligatorios.'' ''danger'', d)
              else if tok \<in> set (map ro_token_publico (orders d)) then (ServerError, d)
              else
                (let order =
                       \<lparr>ro_id = next_id (map ro_id (orders d)),
                        ro_client_id = cl_id cl,
                        ro_marca = marca,
                        ro_modelo = modelo,
                        ro_imei = py_strip (form_get f ''imei'' []),
                        ro_accesorios = py_strip (form_get f ''accesorios'' []),
                        ro_clave_desbloqueo = py_strip (form_get f ''clave_desbloqueo'' []),
                        ro_problema_reportado = problema,
                        ro_diagnostico = py_strip (form_get f ''diagnostico'' []),
                        ro_costo_estimado = parse_float (f ''costo_estimado''),
                        ro_senia = Some (opt_or0 (parse_float (f ''senia''))),
                        ro_estado = form_get f ''estado'' ''recibido'',
                        ro_token_publico = tok\<rparr>;
                     d1 = d\<lparr>orders := orders d @ [order]\<rparr>;
                     d2 = add_status_history (ro_id order) (ro_estado order)
                            ''Ingreso de la orden'' d1;
                     d3 = (if opt_pos (ro_senia order) then
                             add_cash_entry ''entrada''
                               (''Se'' @ [n_tilde] @ ''a orden #'' @ str_nat (ro_id order))
                               (the (ro_senia order)) (Some (ro_id order)) d2
                           else d2)
                 in (Redirect ''orders_list''
                       (''Orden #'' @ str_nat (ro_id order) @ '' creada.'') ''success'', d3))))"

definition order_update :: "nat \<Rightarrow> form \<Rightarrow> db \<Rightarrow> response \<times> db" where
  "order_update order_id f d =
     (case find (\<lambda>r. ro_id r = order_id) (orders d) of
        None \<Rightarrow> (NotFound, d)
      | Some order \<Rightarrow>
          (case query_get cl_id (clients d) (f ''client_id'') of
             None \<Rightarrow>
               (Redirect ''order_edit_form'' (''Cliente inv'' @ [a_acute] @ ''lido.'') ''danger'', d)
           | Some cl \<Rightarrow>
               (Redirect ''order_detail'' ''Orden actualizada.'' ''success'',
                d\<lparr>orders :=
                     map (\<lambda>r. if ro_id r = order_id
                               then r\<lparr>ro_client_id := cl_id cl,
                                      ro_marca := py_strip (form_get f ''marca'' []),
                                      ro_modelo := py_strip (form_get f ''modelo'' []),
                                      ro_imei := py_strip (form_get f ''imei'' []),
                                      ro_accesorios := py_strip (form_get f ''accesorios'' []),
                                      ro_clave_desbloqueo :=
                                        py_strip (form_get f ''clave_desbloqueo'' []),
                                      ro_problema_reportado :=
                                        py_strip (form_get f ''problema_reportado'' []),
                                      ro_diagnostico := py_strip (form_get f ''diagnostico'' []),
                                      ro_costo_estimado := parse_float (f ''costo_estimado''),
                                      ro_senia := Some (opt_or0 (parse_float (f ''senia'')))\<rparr>
                               else r) (orders d)\<rparr>)))"

text \<open>
  \<open>order_change_status\<close> (line 486). In both cash branches the guard \<open>opt_pos\<close> has checked
  that the column is not \<open>None\<close> before its value is read.
\<close>

definition pago_final_concepto :: "nat \<Rightarrow> string" where
  "pago_final_concepto oid = ''Pago final orden #'' @ str_nat oid"

definition devolucion_prefijo :: string where
  "devolucion_prefijo = ''Devoluci'' @ [o_acute] @ ''n se'' @ [n_tilde] @ ''a''"

definition devolucion_concepto :: "nat \<Rightarrow> string" where
  "devolucion_concepto oid = devolucion_prefijo @ '' orden #'' @ str_nat oid"

definition total_pagado :: "db \<Rightarrow> repair_order \<Rightarrow> pyfloat" where
  "total_pagado d order =
     py_sum (map (\<lambda>mov. pf_or0 (ce_monto mov))
               (filter (\<lambda>mov. ce_tipo mov = ''entrada'') (movimientos_caja d order)))"

definition total_devuelto :: "db \<Rightarrow> repair_order \<Rightarrow> pyfloat" where
  "total_devuelto d order =
     py_sum (map (\<lambda>mov. pf_or0 (ce_monto mov))
               (filter (\<lambda>mov. ce_tipo mov = ''salida'' \<and>
                              startswith (ce_concepto mov) devolucion_prefijo)
                  (movimientos_caja d order)))"

definition order_change_status :: "nat \<Rightarrow> form \<Rightarrow> db \<Rightarrow> response \<times> db" where
  "order_change_status order_id f d =
     (case find (\<lambda>r. ro_id r = order_id) (orders d) of
        None \<Rightarrow> (NotFound, d)
      | Some order \<Rightarrow>
          (let nuevo_estado = f ''estado'';
               nota = py_strip (form_get f ''nota'' [])
           in if \<not> in_order_states nuevo_estado then
                (Redirect ''order_detail'' (''Estado inv'' @ [a_acute] @ ''lido.'') ''danger'', d)
              else
                (let ne = the nuevo_estado;
                     d1 = add_status_history order_id ne nota
                            (d\<lparr>orders :=
                                 map (\<lambda>r. if ro_id r = order_id then r\<lparr>ro_estado := ne\<rparr> else r)
                                   (orders d)\<rparr>);
                     d2 =
                       (if ne = ''entregado'' \<and> opt_pos (ro_costo_estimado order) then
                          (let restante =
                                 py_round2 (pf_sub (the (ro_costo_estimado order))
                                              (total_pagado d order))
                           in if pf_gt0 restante then
                                add_cash_entry ''entrada'' (pago_final_concepto (ro_id order))
                                  restante (Some (ro_id order)) d1
                              else d1)
                        else if ne = ''cancelado'' \<and> opt_pos (ro_senia order) then
                          (let a_devolver =
                                 py_round2 (pf_sub (the (ro_senia order)) (total_devuelto d order))
                           in if pf_gt0 a_devolver then
                                add_cash_entry ''salida'' (devolucion_concepto (ro_id order))
                                  a_devolver (Some (ro_id order)) d1
                              else d1)
                        else d1)
                 in (Redirect ''order_detail'' ''Estado actualizado.'' ''success'', d2))))"

subsection \<open>Parts\<close>

definition add_part :: "nat \<Rightarrow> form \<Rightarrow> db \<Rightarrow> response \<times> db" where
  "add_part order_id f d =
     (case find (\<lambda>r. ro_id r = order_id) (orders d) of
        None \<Rightarrow> (NotFound, d)
      | Some order \<Rightarrow>
          (let desc = py_strip (form_get f ''descripcion'' []);
               costo = opt_or0 (parse_float (f ''costo''))
           in if desc = [] then
                (Redirect ''order_detail''
                   (''Descripci'' @ [o_acute] @ ''n de repuesto requerida.'') ''danger'', d)
              else
                (Redirect ''order_detail'' ''Repuesto agregado.'' ''success'',
                 d\<lparr>repuestos := repuestos d @
                      [\<lparr>pt_id = next_id (map pt_id (repuestos d)), pt_order_id = ro_id order,
                        pt_descripcion = desc, pt_costo = costo\<rparr>]\<rparr>)))"

definition del_part :: "nat \<Rightarrow> nat \<Rightarrow> db \<Rightarrow> response \<times> db" where
  "del_part order_id part_id d =
     (case find (\<lambda>p. pt_id p = part_id) (repuestos d) of
        None \<Rightarrow> (NotFound, d)
      | Some p \<Rightarrow>
          (Redirect ''order_detail'' ''Repuesto eliminado.'' ''success'',
           d\<lparr>repuestos := filter (\<lambda>p. pt_id p \<noteq> part_id) (repuestos d)\<rparr>))"

subsection \<open>Cash\<close>

text \<open>
  The aggregate \<open>SUM(monto)\<close> of a query: \<open>NULL\<close> over no rows, else the float sum of the
  rows; \<open>COALESCE(x, 0.0)\<close>; and the \<open>or 0.0\<close> applied to the scalar.
\<close>

definition sql_sum :: "pyfloat list \<Rightarrow> pyfloat option" where
  "sql_sum xs = (case xs of [] \<Rightarrow> None | y # ys \<Rightarrow> Some (foldl pf_add y ys))"

definition coalesce :: "pyfloat option \<Rightarrow> pyfloat \<Rightarrow> pyfloat" where
  "coalesce x dflt = (case x of None \<Rightarrow> dflt | Some v \<Rightarrow> v)"

text \<open>\<open>cash_list\<close> (line 581): the values \<open>entradas\<close>, \<open>salidas\<close>, \<open>saldo\<close> handed to the page.\<close>

definition cash_list :: "db \<Rightarrow> pyfloat \<times> pyfloat \<times> pyfloat" where
  "cash_list d =
     (let entradas =
            pf_or0 (coalesce (sql_sum (map ce_monto
                      (filter (\<lambda>e. ce_tipo e = ''entrada'') (caja d)))) (Fin 0));
          salidas =
            pf_or0 (coalesce (sql_sum (map ce_monto
                      (filter (\<lambda>e. ce_tipo e = ''salida'') (caja d)))) (Fin 0));
          saldo = pf_sub entradas salidas
      in (entradas, salidas, saldo))"

text \<open>\<open>cash_create\<close> (line 598).\<close>

definition cash_create :: "form \<Rightarrow> db \<Rightarrow> response \<times> db" where
  "cash_create f d =
     (let tipo = f ''tipo'';
          concepto = py_strip (form_get f ''concepto'' []);
          monto = opt_or0 (parse_float (f ''monto''));
          order_id = f ''order_id''
      in if (tipo \<noteq> Some ''entrada'' \<and> tipo \<noteq> Some ''salida'') \<or> concepto = [] \<or> pf_le0 monto
         then
           (Redirect ''cash_new_form'' ''Completar tipo, concepto y monto (>0).'' ''danger'', d)
         else
           (Redirect ''cash_list'' ''Movimiento registrado.'' ''success'',
            add_cash_entry (the tipo) concepto monto
              (if order_id \<noteq> None \<and> order_id \<noteq> Some []
               then map_option ro_id (query_get ro_id (orders d) order_id)
               else None) d))"

subsection \<open>The \<open>seed\<close> command (line 180)\<close>

text \<open>
  Nothing is added when a client exists. The client is committed first; the commit of the
  order fails when its token is taken, and the command stops there.
\<close>

definition seed :: "string \<Rightarrow> db \<Rightarrow> db" where
  "seed tok d =
     (if clients d \<noteq> [] then d
      else
        (let c1 = \<lparr>cl_id = next_id (map cl_id (clients d)),
                   cl_nombre = ''Juan P'' @ [e_acute] @ ''rez'',
                   cl_telefono = ''261-555-1234'', cl_email = ''juan@example.com'',
                   cl_direccion = ''San Mart'' @ [i_acute] @ ''n 123'', cl_dni = None\<rparr>;
             d1 = d\<lparr>clients := clients d @ [c1]\<rparr>
         in if tok \<in> set (map ro_token_publico (orders d1)) then d1
            else
              (let o1 = \<lparr>ro_id = next_id (map ro_id (orders d1)), ro_client_id = cl_id c1,
                         ro_marca = ''Samsung'', ro_modelo = ''A54'', ro_imei = ''3598...'',
                         ro_accesorios = ''Funda'', ro_clave_desbloqueo = ''1-2-5-8'',
                         ro_problema_reportado = ''No carga'', ro_diagnostico = ''Conector'',
                         ro_costo_estimado = Some (Fin 45000), ro_senia = Some (Fin 10000),
                         ro_estado = ''diagnostico'', ro_token_publico = tok\<rparr>;
                   d2 = d1\<lparr>orders := orders d1 @ [o1]\<rparr>;
                   d3 = add_status_history (ro_id o1) ''recibido'' ''Ingreso'' d2;
                   d4 = add_status_history (ro_id o1) ''diagnostico'' ''Se detecta conector'' d3;
                   d5 = d4\<lparr>repuestos := repuestos d4 @
                             [\<lparr>pt_id = next_id (map pt_id (repuestos d4)),
                               pt_order_id = ro_id o1, pt_descripcion = ''Conector USB-C'',
                               pt_costo = Fin 12000\<rparr>]\<rparr>
               in add_cash_entry ''entrada''
                    (''Se'' @ [n_tilde] @ ''a orden #'' @ str_nat (ro_id o1)) (Fin 10000)
                    (Some (ro_id o1)) d5)))"

subsection \<open>The commits of \<open>order_create\<close> and of \<open>seed\<close>\<close>

text \<open>
  Every handler above commits once, at its end, except \<open>order_create\<close>, which commits the
  order (line 431), then its history entry (line 433), then the deposit entry (line 436),
  and \<open>seed\<close>, which commits the client (line 185), then the order (line 188), then the
  rest (line 193). The lists below hold the database as of each commit of one run, in
  order; a run that rejects the request, or whose first commit fails, commits nothing.
\<close>

definition order_create_commits :: "form \<Rightarrow> string \<Rightarrow> db \<Rightarrow> db list" where
  "order_create_commits f tok d =
     (case query_get cl_id (clients d) (f ''client_id'') of
        None \<Rightarrow> []
      | Some cl \<Rightarrow>
          (let marca = py_strip (form_get f ''marca'' []);
               modelo = py_strip (form_get f ''modelo'' []);
               problema = py_strip (form_get f ''problema_reportado'' [])
           in if marca = [] \<or> modelo = [] \<or> problema = [] then []
              else if tok \<in> set (map ro_token_publico (orders d)) then []
              else
                (let order =
                       \<lparr>ro_id = next_id (map ro_id (orders d)),
                        ro_client_id = cl_id cl,
                        ro_marca = marca,
                        ro_modelo = modelo,
                        ro_imei = py_strip (form_get f ''imei'' []),
                        ro_accesorios = py_strip (form_get f ''accesorios'' []),
                        ro_clave_desbloqueo = py_strip (form_get f ''clave_desbloqueo'' []),
                        ro_problema_reportado = problema,
                        ro_diagnostico = py_strip (form_get f ''diagnostico'' []),
                        ro_costo_estimado = parse_float (f ''costo_estimado''),
                        ro_senia = Some (opt_or0 (parse_float (f ''senia''))),
                        ro_estado = form_get f ''estado'' ''recibido'',
                        ro_token_publico = tok\<rparr>;
                     d1 = d\<lparr>orders := orders d @ [order]\<rparr>;
                     d2 = add_status_history (ro_id order) (ro_estado order)
                            ''Ingreso de la orden'' d1
                 in [d1, d2] @
                    (if opt_pos (ro_senia order) then
                       [add_cash_entry ''entrada''
                          (''Se'' @ [n_tilde] @ ''a orden #'' @ str_nat (ro_id order))
                          (the (ro_senia order)) (Some (ro_id order)) d2]
                     else []))))"

definition seed_commits :: "string \<Rightarrow> db \<Rightarrow> db list" where
  "seed_commits tok d =
     (if clients d \<noteq> [] then []
      else
        (let c1 = \<lparr>cl_id = next_id (map cl_id (clients d)),
                   cl_nombre = ''Juan P'' @ [e_acute] @ ''rez'',
                   cl_telefono = ''261-555-1234'', cl_email = ''juan@example.com'',
                   cl_direccion = ''San Mart'' @ [i_acute] @ ''n 123'', cl_dni = None\<rparr>;
             d1 = d\<lparr>clients := clients d @ [c1]\<rparr>
         in if tok \<in> set (map ro_token_publico (orders d1)) then [d1]
            else
              (let o1 = \<lparr>ro_id = next_id (map ro_id (orders d1)), ro_client_id = cl_id c1,
                         ro_marca = ''Samsung'', ro_modelo = ''A54'', ro_imei = ''3598...'',
                         ro_accesorios = ''Funda'', ro_clave_desbloqueo = ''1-2-5-8'',
                         ro_problema_reportado = ''No carga'', ro_diagnostico = ''Conector'',
                         ro_costo_estimado = Some (Fin 45000), ro_senia = Some (Fin 10000),
                         ro_estado = ''diagnostico'', ro_token_publico = tok\<rparr>;
                   d2 = d1\<lparr>orders := orders d1 @ [o1]\<rparr>;
                   d3 = add_status_history (ro_id o1) ''recibido'' ''Ingreso'' d2;
                   d4 = add_status_history (ro_id o1) ''diagnostico'' ''Se detecta conector'' d3;
                   d5 = d4\<lparr>repuestos := repuestos d4 @
                             [\<lparr>pt_id = next_id (map pt_id (repuestos d4)),
                               pt_order_id = ro_id o1, pt_descripcion = ''Conector USB-C'',
                               pt_costo = Fin 12000\<rparr>]\<rparr>
               in [d1, d2,
                   add_cash_entry ''entrada''
                     (''Se'' @ [n_tilde] @ ''a orden #'' @ str_nat (ro_id o1)) (Fin 10000)
                     (Some (ro_id o1)) d5])))"

section \<open>Reachable states\<close>

text \<open>
  The operations that write the database, and the states they reach from the empty
  database. Every other route only reads these tables. A state is reachable when it is
  the empty database, the database a request leaves once its handler has run to its end,
  or the database as of one of the commits of \<open>order_create\<close> or \<open>seed\<close>: what another
  reader sees between two commits, and what stays when the run stops there.
\<close>

datatype request =
    Seed string
  | Client_create form
  | Client_update nat form
  | Order_create form string
  | Order_update nat form
  | Order_change_status nat form
  | Add_part nat form
  | Del_part nat nat
  | Cash_create form

fun handle :: "request \<Rightarrow> db \<Rightarrow> db" where
  "handle (Seed tok) d = seed tok d"
| "handle (Client_create f) d = snd (client_create f d)"
| "handle (Client_update i f) d = snd (client_update i f d)"
| "handle (Order_create f tok) d = snd (order_create f tok d)"
| "handle (Order_update i f) d = snd (order_update i f d)"
| "handle (Order_change_status i f) d = snd (order_change_status i f d)"
| "handle (Add_part i f) d = snd (add_part i f d)"
| "handle (Del_part i j) d = snd (del_part i j d)"
| "handle (Cash_create f) d = snd (cash_create f d)"

inductive reachable :: "db \<Rightarrow> bool" where
  reach_empty: "reachable empty_db"
| reach_step: "reachable d \<Longrightarrow> reachable (handle r d)"
| reach_order_create_commit:
    "reachable d \<Longrightarrow> d' \<in> set (order_create_commits f tok d) \<Longrightarrow> reachable d'"
| reach_seed_commit:
    "reachable d \<Longrightarrow> d' \<in> set (seed_commits tok d) \<Longrightarrow> reachable d'"

text \<open>The database after a list of requests, first request first.\<close>

definition run :: "request list \<Rightarrow> db \<Rightarrow> db" where
  "run rs d = foldl (\<lambda>s r. handle r s) d rs"

text \<open>The database that the \<open>seed\<close> command builds from the empty one.\<close>

definition demo_db :: db where
  "demo_db = seed ''ABCDEFGHJK'' empty_db"

section \<open>The ledger totals as the specification words them\<close>

text \<open>
  \<open>total(direction)\<close> sums \<open>amount\<close> over the entries with that direction; \<open>balance()\<close> is
  \<open>total(in) - total(out)\<close>.
\<close>

definition spec_total :: "string \<Rightarrow> cash_entry list \<Rightarrow> pyfloat" where
  "spec_total direction es = py_sum (map ce_monto (filter (\<lambda>e. ce_tipo e = direction) es))"

definition spec_balance :: "cash_entry list \<Rightarrow> pyfloat" where
  "spec_balance es = pf_sub (spec_total ''entrada'' es) (spec_total ''salida'' es)"

text \<open>A float of the model is a value that binary64 holds: rounding leaves it as it is.\<close>

definition is_float :: "pyfloat \<Rightarrow> bool" where
  "is_float x = (case x of Fin q \<Rightarrow> fl q = Fin q | _ \<Rightarrow> True)"

section \<open>The history invariant\<close>

text \<open>
  Every order has a history entry, and the status of its latest entry is the status of the
  order.
\<close>

definition historial_ok :: "db \<Rightarrow> bool" where
  "historial_ok d =
     (\<forall>order \<in> set (orders d).
        historial_de d (ro_id order) \<noteq> [] \<and>
        sh_estado (last (historial_de d (ro_id order))) = ro_estado order)"

section \<open>Whole amounts\<close>

text \<open>
  An amount is whole when it is a finite float that is a non-negative integer;
  \<open>whole_part\<close> is that integer.
\<close>

definition whole_amount :: "pyfloat \<Rightarrow> bool" where
  "whole_amount x = (case x of Fin q \<Rightarrow> 0 \<le> q \<and> of_int \<lfloor>q\<rfloor> = q | _ \<Rightarrow> False)"

definition whole_part :: "pyfloat \<Rightarrow> int" where
  "whole_part x = (case x of Fin q \<Rightarrow> \<lfloor>q\<rfloor> | _ \<Rightarrow> 0)"

section \<open>Auxiliary facts\<close>

lemma pf_or0_id [simp]: "pf_or0 x = x"
  by (simp add: pf_or0_def pf_truthy_def)

lemma pf_gt0_truthy: "pf_gt0 x \<Longrightarrow> pf_truthy x"
  by (cases x) (auto simp: pf_truthy_def)

lemma opt_pos_Some [simp]: "opt_pos (Some c) = pf_gt0 c"
  using pf_gt0_truthy by (auto simp: opt_pos_def)

lemma opt_pos_None [simp]: "opt_pos None = False"
  by (simp add: opt_pos_def)

lemma pf_le0_not_gt0: "pf_le0 x \<Longrightarrow> \<not> pf_gt0 x"
  by (cases x) auto

lemma find_ro_id: "find (\<lambda>r. ro_id r = i) xs = Some order \<Longrightarrow> ro_id order = i \<and> order \<in> set xs"
  by (auto simp: find_Some_iff)

lemma in_order_states_iff:
  "in_order_states x \<longleftrightarrow>
     x \<in> Some ` {''recibido'', ''diagnostico'', ''en_proceso'', ''esperando_repuestos'',
                  ''listo'', ''entregado'', ''cancelado''}"
  by (cases x) (auto simp: in_order_states_def ORDER_STATES_def)

lemma caja_add_status_history [simp]: "caja (add_status_history i e n d) = caja d"
  by (simp add: add_status_history_def)

lemma caja_add_cash_entry:
  "caja (add_cash_entry t c m i d) =
     caja d @ [\<lparr>ce_id = next_id (map ce_id (caja d)), ce_tipo = t, ce_concepto = c,
                ce_monto = m, ce_order_id = i\<rparr>]"
  by (simp add: add_cash_entry_def)

lemma total_pagado_eq:
  "total_pagado d order =
     py_sum (map ce_monto
       (filter (\<lambda>m. ce_order_id m = Some (ro_id order) \<and> ce_tipo m = ''entrada'') (caja d)))"
  by (simp add: total_pagado_def movimientos_caja_def)

lemma total_devuelto_eq:
  "total_devuelto d order =
     py_sum (map ce_monto
       (filter (\<lambda>m. ce_order_id m = Some (ro_id order) \<and> ce_tipo m = ''salida'' \<and>
                     startswith (ce_concepto m) devolucion_prefijo) (caja d)))"
  by (simp add: total_devuelto_def movimientos_caja_def)

lemma demo_db_eval:
  "demo_db =
     \<lparr>clients =
        [\<lparr>cl_id = 1, cl_nombre = ''Juan P'' @ [e_acute] @ ''rez'',
          cl_telefono = ''261-555-1234'', cl_email = ''juan@example.com'',
          cl_direccion = ''San Mart'' @ [i_acute] @ ''n 123'', cl_dni = None\<rparr>],
      orders =
        [\<lparr>ro_id = 1, ro_client_id = 1, ro_marca = ''Samsung'', ro_modelo = ''A54'',
          ro_imei = ''3598...'', ro_accesorios = ''Funda'', ro_clave_desbloqueo = ''1-2-5-8'',
          ro_problema_reportado = ''No carga'', ro_diagnostico = ''Conector'',
          ro_costo_estimado = Some (Fin 45000), ro_senia = Some (Fin 10000),
          ro_estado = ''diagnostico'', ro_token_publico = ''ABCDEFGHJK''\<rparr>],
      historial =
        [\<lparr>sh_id = 1, sh_order_id = 1, sh_estado = ''recibido'', sh_nota = ''Ingreso''\<rparr>,
         \<lparr>sh_id = 2, sh_order_id = 1, sh_estado = ''diagnostico'',
           sh_nota = ''Se detecta conector''\<rparr>],
      repuestos =
        [\<lparr>pt_id = 1, pt_order_id = 1, pt_descripcion = ''Conector USB-C'',
          pt_costo = Fin 12000\<rparr>],
      caja =
        [\<lparr>ce_id = 1, ce_tipo = ''entrada'', ce_concepto = ''Se'' @ [n_tilde] @ ''a orden #1'',
          ce_monto = Fin 10000, ce_order_id = Some 1\<rparr>]\<rparr>"
  by code_simp

section \<open>Status changes\<close>

text \<open>
  Claim C3. For an existing order, a target status that is not one of the seven codes of
  \<open>ORDER_STATES\<close> (or a missing \<open>estado\<close> field) makes \<open>order_change_status\<close> answer with the
  flashed error and return the database as it was: order status, history and cash entries
  are all unchanged.
\<close>

theorem change_status_invalid_no_mutation:
  assumes "find (\<lambda>r. ro_id r = order_id) (orders d) = Some order"
    and "f ''estado'' \<notin> Some ` {''recibido'', ''diagnostico'', ''en_proceso'',
           ''esperando_repuestos'', ''listo'', ''entregado'', ''cancelado''}"
  shows "order_change_status order_id f d =
           (Redirect ''order_detail'' (''Estado inv'' @ [a_acute] @ ''lido.'') ''danger'', d)"
  using assms by (simp add: order_change_status_def in_order_states_iff)

theorem change_status_invalid_no_mutation_witness:
  "order_change_status 1 [''estado'' \<mapsto> ''roto''] demo_db =
     (Redirect ''order_detail'' (''Estado inv'' @ [a_acute] @ ''lido.'') ''danger'', demo_db)"
proof -
  have h1: "find (\<lambda>r. ro_id r = 1) (orders demo_db) = Some (hd (orders demo_db))"
    by (simp add: demo_db_eval)
  have h2: "[''estado'' \<mapsto> ''roto''] ''estado'' \<notin> Some ` {''recibido'', ''diagnostico'',
      ''en_proceso'', ''esperando_repuestos'', ''listo'', ''entregado'', ''cancelado''}"
    by simp
  show ?thesis
    by (rule change_status_invalid_no_mutation
        [where f = "[''estado'' \<mapsto> ''roto'']" and order_id = 1 and d = demo_db, OF h1 h2])
qed

text \<open>
  Claim C1. When an existing order whose \<open>costo_estimado\<close> is present and positive is set to
  \<open>entregado\<close>, the change succeeds, and with \<open>already_paid\<close> the float sum of the amounts of
  the order's \<open>entrada\<close> entries and \<open>remaining = round(costo_estimado - already_paid, 2)\<close>:
  if \<open>remaining > 0\<close>, exactly one entry is appended to the cash table, of type \<open>entrada\<close>,
  amount \<open>remaining\<close>, concept \<open>Pago final orden #<id>\<close> (the source's wording of "final
  payment"), linked to the order; if \<open>remaining <= 0\<close> (or is nan), the cash table is
  unchanged. The witness is the scenario of the specification: cost 45000, one deposit
  entry of 10000, final payment 35000.
\<close>

theorem deliver_appends_final_payment:
  assumes "find (\<lambda>r. ro_id r = order_id) (orders d) = Some order"
    and "f ''estado'' = Some ''entregado''"
    and "ro_costo_estimado order = Some costo"
    and "pf_gt0 costo"
  defines "already_paid \<equiv>
      py_sum (map ce_monto
        (filter (\<lambda>m. ce_order_id m = Some order_id \<and> ce_tipo m = ''entrada'') (caja d)))"
  defines "remaining \<equiv> py_round2 (pf_sub costo already_paid)"
  shows "fst (order_change_status order_id f d) =
           Redirect ''order_detail'' ''Estado actualizado.'' ''success'' \<and>
         (pf_gt0 remaining \<longrightarrow>
            caja (snd (order_change_status order_id f d)) =
              caja d @ [\<lparr>ce_id = next_id (map ce_id (caja d)), ce_tipo = ''entrada'',
                          ce_concepto = ''Pago final orden #'' @ str_nat order_id,
                          ce_monto = remaining, ce_order_id = Some order_id\<rparr>]) \<and>
         (pf_le0 remaining \<longrightarrow> caja (snd (order_change_status order_id f d)) = caja d) \<and>
         (\<not> pf_gt0 remaining \<longrightarrow> caja (snd (order_change_status order_id f d)) = caja d)"
proof -
  have id: "ro_id order = order_id"
    using assms(1) find_ro_id by blast
  have st: "in_order_states (f ''estado'')"
    using assms(2) by (simp add: in_order_states_iff)
  have rem: "py_round2 (pf_sub (the (ro_costo_estimado order)) (total_pagado d order)) = remaining"
    using assms(3) id by (simp add: remaining_def already_paid_def total_pagado_eq)
  show ?thesis
    using assms(1-4) st id rem pf_le0_not_gt0 [of remaining]
    by (simp add: order_change_status_def Let_def caja_add_cash_entry pago_final_concepto_def)
qed

theorem deliver_appends_final_payment_witness:
  "caja (snd (order_change_status 1 [''estado'' \<mapsto> ''entregado''] demo_db)) =
     caja demo_db @
       [\<lparr>ce_id = 2, ce_tipo = ''entrada'', ce_concepto = ''Pago final orden #1'',
         ce_monto = Fin 35000, ce_order_id = Some 1\<rparr>]"
proof -
  have h1: "find (\<lambda>r. ro_id r = 1) (orders demo_db) = Some (hd (orders demo_db))"
    by (simp add: demo_db_eval)
  have h2: "[''estado'' \<mapsto> ''entregado''] ''estado'' = Some ''entregado''"
    by simp
  have h3: "ro_costo_estimado (hd (orders demo_db)) = Some (Fin 45000)"
    by (simp add: demo_db_eval)
  have h4: "pf_gt0 (Fin 45000)"
    by simp
  have paid: "py_sum (map ce_monto
        (filter (\<lambda>m. ce_order_id m = Some 1 \<and> ce_tipo m = ''entrada'') (caja demo_db))) = Fin 10000"
    unfolding demo_db_eval by code_simp
  have rest: "py_round2 (pf_sub (Fin 45000) (Fin 10000)) = Fin 35000"
    by code_simp
  have n: "next_id (map ce_id (caja demo_db)) = 2"
    by (simp add: demo_db_eval next_id_def)
  have s: "str_nat 1 = ''1''"
    by code_simp
  note t = deliver_appends_final_payment
      [where f = "[''estado'' \<mapsto> ''entregado'']" and order_id = 1 and d = demo_db,
       OF h1 h2 h3 h4]
  from t [unfolded paid rest n s] show ?thesis
    by simp
qed


text \<open>
  Claim C2. When an existing order whose \<open>senia\<close> is positive is set to \<open>cancelado\<close>, the
  change succeeds, and with \<open>already_refunded\<close> the float sum of the amounts of the order's
  \<open>salida\<close> entries whose concept starts with \<open>Devolucion sena\<close> (with its accents) and
  \<open>to_refund = round(senia - already_refunded, 2)\<close>: if \<open>to_refund > 0\<close>, exactly one entry is
  appended to the cash table, of type \<open>salida\<close>, amount \<open>to_refund\<close>, concept
  \<open>Devolucion sena orden #<id>\<close>, linked to the order; if \<open>to_refund <= 0\<close> (or is nan), the
  cash table is unchanged. The witness is the scenario of the specification: deposit
  10000, no earlier refund, one refund entry of 10000.
\<close>

theorem cancel_appends_deposit_refund:
  assumes "find (\<lambda>r. ro_id r = order_id) (orders d) = Some order"
    and "f ''estado'' = Some ''cancelado''"
    and "ro_senia order = Some senia"
    and "pf_gt0 senia"
  defines "already_refunded \<equiv>
      py_sum (map ce_monto
        (filter (\<lambda>m. ce_order_id m = Some order_id \<and> ce_tipo m = ''salida'' \<and>
                      startswith (ce_concepto m)
                        (''Devoluci'' @ [o_acute] @ ''n se'' @ [n_tilde] @ ''a'')) (caja d)))"
  defines "to_refund \<equiv> py_round2 (pf_sub senia already_refunded)"
  shows "fst (order_change_status order_id f d) =
           Redirect ''order_detail'' ''Estado actualizado.'' ''success'' \<and>
         (pf_gt0 to_refund \<longrightarrow>
            caja (snd (order_change_status order_id f d)) =
              caja d @ [\<lparr>ce_id = next_id (map ce_id (caja d)), ce_tipo = ''salida'',
                          ce_concepto = ''Devoluci'' @ [o_acute] @ ''n se'' @ [n_tilde] @
                                        ''a orden #'' @ str_nat order_id,
                          ce_monto = to_refund, ce_order_id = Some order_id\<rparr>]) \<and>
         (pf_le0 to_refund \<longrightarrow> caja (snd (order_change_status order_id f d)) = caja d) \<and>
         (\<not> pf_gt0 to_refund \<longrightarrow> caja (snd (order_change_status order_id f d)) = caja d)"
proof -
  have id: "ro_id order = order_id"
    using assms(1) find_ro_id by blast
  have st: "in_order_states (f ''estado'')"
    using assms(2) by (simp add: in_order_states_iff)
  have rem: "py_round2 (pf_sub (the (ro_senia order)) (total_devuelto d order)) = to_refund"
    using assms(3) id
    by (simp add: to_refund_def already_refunded_def total_devuelto_eq devolucion_prefijo_def)
  show ?thesis
    using assms(1-4) st id rem pf_le0_not_gt0 [of to_refund]
    by (simp add: order_change_status_def Let_def caja_add_cash_entry devolucion_concepto_def
        devolucion_prefijo_def)
qed

theorem cancel_appends_deposit_refund_witness:
  "caja (snd (order_change_status 1 [''estado'' \<mapsto> ''cancelado''] demo_db)) =
     caja demo_db @
       [\<lparr>ce_id = 2, ce_tipo = ''salida'',
         ce_concepto = ''Devoluci'' @ [o_acute] @ ''n se'' @ [n_tilde] @ ''a orden #1'',
         ce_monto = Fin 10000, ce_order_id = Some 1\<rparr>]"
proof -
  have h1: "find (\<lambda>r. ro_id r = 1) (orders demo_db) = Some (hd (orders demo_db))"
    by (simp add: demo_db_eval)
  have h2: "[''estado'' \<mapsto> ''cancelado''] ''estado'' = Some ''cancelado''"
    by simp
  have h3: "ro_senia (hd (orders demo_db)) = Some (Fin 10000)"
    by (simp add: demo_db_eval)
  have h4: "pf_gt0 (Fin 10000)"
    by simp
  have refunded: "py_sum (map ce_monto
        (filter (\<lambda>m. ce_order_id m = Some 1 \<and> ce_tipo m = ''salida'' \<and>
                      startswith (ce_concepto m)
                        (''Devoluci'' @ [o_acute] @ ''n se'' @ [n_tilde] @ ''a''))
           (caja demo_db))) = Fin 0"
    unfolding demo_db_eval by code_simp
  have rest: "py_round2 (pf_sub (Fin 10000) (Fin 0)) = Fin 10000"
    by code_simp
  have n: "next_id (map ce_id (caja demo_db)) = 2"
    by (simp add: demo_db_eval next_id_def)
  have s: "str_nat 1 = ''1''"
    by code_simp
  note t = cancel_appends_deposit_refund
      [where f = "[''estado'' \<mapsto> ''cancelado'']" and order_id = 1 and d = demo_db,
       OF h1 h2 h3 h4]
  from t [unfolded refunded rest n s] show ?thesis
    by simp
qed

section \<open>Order creation\<close>

text \<open>
  Claim C10. When \<open>order_create\<close> succeeds, the new order is appended with the next primary
  key. If the \<open>senia\<close> field parses to a float \<open>x > 0\<close>, exactly one cash entry is appended:
  type \<open>entrada\<close>, amount \<open>x\<close>, concept \<open>Sena orden #<id>\<close> (with its tilde) with the new
  order's id, linked to the new order. If \<open>parse_float\<close> gives \<open>None\<close> (field absent, blank or
  not a number) or zero, the cash table is unchanged.
\<close>

theorem order_create_deposit_entry:
  assumes "fst (order_create f tok d) = Redirect ''orders_list'' msg ''success''"
  defines "new_id \<equiv> next_id (map ro_id (orders d))"
  defines "d' \<equiv> snd (order_create f tok d)"
  shows "(\<exists>order. orders d' = orders d @ [order] \<and> ro_id order = new_id) \<and>
         (\<forall>x. parse_float (f ''senia'') = Some x \<and> pf_gt0 x \<longrightarrow>
            caja d' =
              caja d @ [\<lparr>ce_id = next_id (map ce_id (caja d)), ce_tipo = ''entrada'',
                          ce_concepto = ''Se'' @ [n_tilde] @ ''a orden #'' @ str_nat new_id,
                          ce_monto = x, ce_order_id = Some new_id\<rparr>]) \<and>
         (f ''senia'' = None \<or> parse_float (f ''senia'') = None \<or>
          parse_float (f ''senia'') = Some (Fin 0) \<longrightarrow> caja d' = caja d)"
proof -
  have abs: "f ''senia'' = None \<Longrightarrow> parse_float (f ''senia'') = None"
    by (simp add: parse_float_def)
  show ?thesis
    using assms(1) abs unfolding d'_def new_id_def
    by (auto simp: order_create_def Let_def caja_add_cash_entry opt_or0_def
        add_status_history_def add_cash_entry_def
        split: option.splits if_splits)
qed

theorem order_create_deposit_entry_witness:
  "caja (snd (order_create
       [''client_id'' \<mapsto> ''1'', ''marca'' \<mapsto> ''Motorola'', ''modelo'' \<mapsto> ''G8'',
        ''problema_reportado'' \<mapsto> ''Pantalla rota'', ''senia'' \<mapsto> ''2500,5'']
       ''ZZZZZZZZZZ'' demo_db)) =
     caja demo_db @
       [\<lparr>ce_id = 2, ce_tipo = ''entrada'', ce_concepto = ''Se'' @ [n_tilde] @ ''a orden #2'',
         ce_monto = Fin (5001 / 2), ce_order_id = Some 2\<rparr>]"
proof -
  let ?f = "[''client_id'' \<mapsto> ''1'', ''marca'' \<mapsto> ''Motorola'', ''modelo'' \<mapsto> ''G8'',
        ''problema_reportado'' \<mapsto> ''Pantalla rota'', ''senia'' \<mapsto> ''2500,5'']"
  have h: "fst (order_create ?f ''ZZZZZZZZZZ'' demo_db) =
      Redirect ''orders_list'' ''Orden #2 creada.'' ''success''"
    unfolding demo_db_eval by code_simp
  have p: "parse_float (?f ''senia'') = Some (Fin (5001 / 2)) \<and> pf_gt0 (Fin (5001 / 2))"
    by code_simp
  have n1: "next_id (map ro_id (orders demo_db)) = 2"
    by (simp add: demo_db_eval next_id_def)
  have n2: "next_id (map ce_id (caja demo_db)) = 2"
    by (simp add: demo_db_eval next_id_def)
  have s: "str_nat 2 = ''2''"
    by code_simp
  note t = order_create_deposit_entry [where f = ?f and d = demo_db, OF h]
  from t [unfolded n1 n2 s] p show ?thesis
    by simp
qed

section \<open>The cash totals\<close>

lemma pf_add_zero_left: "is_float y \<Longrightarrow> pf_add (Fin 0) y = y"
  by (cases y) (simp_all add: is_float_def)

lemma sql_sum_py_sum:
  "list_all is_float xs \<Longrightarrow> pf_or0 (coalesce (sql_sum xs) (Fin 0)) = py_sum xs"
  by (cases xs) (simp_all add: sql_sum_def coalesce_def py_sum_def pf_add_zero_left)

text \<open>
  Claim C8. Over any cash table whose amounts are floats, the \<open>saldo\<close> that \<open>cash_list\<close>
  computes is \<open>total(entrada) - total(salida)\<close>, each total being the sum of the amounts of
  the entries of that type, and a total over no entries is the float 0. The witness is
  the scenario of the specification: entries in 100, out 40, in 5 give the balance 65.
\<close>

theorem cash_list_balance:
  assumes "\<forall>e \<in> set (caja d). is_float (ce_monto e)"
  shows "cash_list d =
           (spec_total ''entrada'' (caja d), spec_total ''salida'' (caja d),
            spec_balance (caja d)) \<and>
         (\<forall>direction. (\<forall>e \<in> set (caja d). ce_tipo e \<noteq> direction) \<longrightarrow>
            spec_total direction (caja d) = Fin 0)"
proof -
  have fl: "list_all is_float (map ce_monto (filter (\<lambda>e. ce_tipo e = t) (caja d)))" for t
    using assms by (simp add: list_all_iff)
  have none: "(\<forall>e \<in> set (caja d). ce_tipo e \<noteq> t) \<longrightarrow> filter (\<lambda>e. ce_tipo e = t) (caja d) = []"
    for t
    by (simp add: filter_empty_conv)
  show ?thesis
    using none
    by (simp add: cash_list_def Let_def spec_balance_def spec_total_def sql_sum_py_sum [OF fl]
        py_sum_def del: pf_or0_id)
qed

theorem cash_list_balance_witness:
  "cash_list
     (empty_db\<lparr>caja :=
        [\<lparr>ce_id = 1, ce_tipo = ''entrada'', ce_concepto = ''a'', ce_monto = Fin 100,
          ce_order_id = None\<rparr>,
         \<lparr>ce_id = 2, ce_tipo = ''salida'', ce_concepto = ''b'', ce_monto = Fin 40,
          ce_order_id = None\<rparr>,
         \<lparr>ce_id = 3, ce_tipo = ''entrada'', ce_concepto = ''c'', ce_monto = Fin 5,
          ce_order_id = None\<rparr>]\<rparr>) = (Fin 105, Fin 40, Fin 65)"
proof -
  let ?es = "[\<lparr>ce_id = 1, ce_tipo = ''entrada'', ce_concepto = ''a'', ce_monto = Fin 100,
          ce_order_id = None\<rparr>,
         \<lparr>ce_id = 2, ce_tipo = ''salida'', ce_concepto = ''b'', ce_monto = Fin 40,
          ce_order_id = None\<rparr>,
         \<lparr>ce_id = 3, ce_tipo = ''entrada'', ce_concepto = ''c'', ce_monto = Fin 5,
          ce_order_id = None\<rparr>]"
  have h: "\<forall>e \<in> set (caja (empty_db\<lparr>caja := ?es\<rparr>)). is_float (ce_monto e)"
    by code_simp
  have v: "spec_total ''entrada'' ?es = Fin 105 \<and> spec_total ''salida'' ?es = Fin 40 \<and>
      spec_balance ?es = Fin 65"
    by code_simp
  from cash_list_balance [OF h] v show ?thesis
    by simp
qed


section \<open>The history of an order\<close>

lemma fold_max_ge: "a \<le> fold max ids (a::nat)"
  by (induction ids arbitrary: a) (auto intro: order_trans [OF max.cobounded2])

lemma fold_max_mem: "x \<in> set ids \<Longrightarrow> x \<le> fold max ids (a::nat)"
proof (induction ids arbitrary: a)
  case Nil
  then show ?case by simp
next
  case (Cons y ys)
  show ?case
  proof (cases "x = y")
    case True
    have "y \<le> max y a" by simp
    also have "\<dots> \<le> fold max ys (max y a)" by (rule fold_max_ge)
    finally show ?thesis using True by simp
  next
    case False
    with Cons show ?thesis by simp
  qed
qed

lemma next_id_fresh: "x \<in> set ids \<Longrightarrow> x < next_id ids"
  using fold_max_mem [of x ids 0] by (simp add: next_id_def)

lemma next_id_not_ro_id: "order \<in> set (orders d) \<Longrightarrow> ro_id order \<noteq> next_id (map ro_id (orders d))"
  using next_id_fresh [of "ro_id order" "map ro_id (orders d)"] by auto

lemma orders_add_status_history [simp]: "orders (add_status_history i e n d) = orders d"
  by (simp add: add_status_history_def)

lemma orders_add_cash_entry [simp]: "orders (add_cash_entry t c m i d) = orders d"
  by (simp add: add_cash_entry_def)

lemma historial_add_cash_entry [simp]: "historial (add_cash_entry t c m i d) = historial d"
  by (simp add: add_cash_entry_def)

lemma historial_add_status_history:
  "historial (add_status_history i e n d) =
     historial d @ [\<lparr>sh_id = next_id (map sh_id (historial d)), sh_order_id = i, sh_estado = e,
                     sh_nota = n\<rparr>]"
  by (simp add: add_status_history_def)

lemma historial_ok_same:
  "orders d' = orders d \<Longrightarrow> historial d' = historial d \<Longrightarrow> historial_ok d \<Longrightarrow> historial_ok d'"
  by (simp add: historial_ok_def historial_de_def)

lemma historial_ok_new_order:
  assumes "historial_ok d"
    and "orders d' = orders d @ [order]"
    and "ro_id order = next_id (map ro_id (orders d))"
    and "historial d' = historial d @ hs @ [h]"
    and "\<forall>x \<in> set hs. sh_order_id x = ro_id order"
    and "sh_order_id h = ro_id order"
    and "sh_estado h = ro_estado order"
  shows "historial_ok d'"
proof -
  have old: "r \<in> set (orders d) \<Longrightarrow> historial_de d' (ro_id r) = historial_de d (ro_id r)" for r
    using assms(3-6) next_id_not_ro_id [of r d]
    by (auto simp: historial_de_def filter_empty_conv)
  have new: "historial_de d' (ro_id order) = historial_de d (ro_id order) @ hs @ [h]"
    using assms(4-6) by (simp add: historial_de_def filter_id_conv)
  show ?thesis
    using assms(1,2,7) old new by (auto simp: historial_ok_def)
qed

lemma historial_ok_change:
  assumes "historial_ok d"
    and "orders d' = map (\<lambda>r. if ro_id r = i then r\<lparr>ro_estado := e\<rparr> else r) (orders d)"
    and "historial d' = historial d @ [h]"
    and "sh_order_id h = i"
    and "sh_estado h = e"
  shows "historial_ok d'"
proof -
  have hist: "historial_de d' j = (if j = i then historial_de d j @ [h] else historial_de d j)"
    for j
    using assms(3,4) by (auto simp: historial_de_def)
  show ?thesis
    unfolding historial_ok_def
  proof
    fix r'
    assume "r' \<in> set (orders d')"
    then obtain r where r: "r \<in> set (orders d)"
      and r': "r' = (if ro_id r = i then r\<lparr>ro_estado := e\<rparr> else r)"
      using assms(2) by auto
    have old: "historial_de d (ro_id r) \<noteq> [] \<and>
        sh_estado (last (historial_de d (ro_id r))) = ro_estado r"
      using assms(1) r by (simp add: historial_ok_def)
    show "historial_de d' (ro_id r') \<noteq> [] \<and>
        sh_estado (last (historial_de d' (ro_id r'))) = ro_estado r'"
    proof (cases "ro_id r = i")
      case True
      then show ?thesis
        using r' assms(5) by (simp add: hist)
    next
      case False
      then show ?thesis
        using r' old by (simp add: hist)
    qed
  qed
qed

lemma historial_ok_update:
  assumes "historial_ok d"
    and "orders d' = map (\<lambda>r. if ro_id r = i then g r else r) (orders d)"
    and "\<And>r. ro_id (g r) = ro_id r \<and> ro_estado (g r) = ro_estado r"
    and "historial d' = historial d"
  shows "historial_ok d'"
  unfolding historial_ok_def
proof
  fix r'
  assume "r' \<in> set (orders d')"
  then obtain r where r: "r \<in> set (orders d)"
    and r': "r' = (if ro_id r = i then g r else r)"
    using assms(2) by auto
  have same: "ro_id r' = ro_id r \<and> ro_estado r' = ro_estado r"
    using r' assms(3) by simp
  have hist: "historial_de d' (ro_id r) = historial_de d (ro_id r)"
    using assms(4) by (simp add: historial_de_def)
  have old: "historial_de d (ro_id r) \<noteq> [] \<and>
      sh_estado (last (historial_de d (ro_id r))) = ro_estado r"
    using assms(1) r by (simp add: historial_ok_def)
  show "historial_de d' (ro_id r') \<noteq> [] \<and>
      sh_estado (last (historial_de d' (ro_id r'))) = ro_estado r'"
    using same hist old by simp
qed

lemma historial_ok_empty: "historial_ok empty_db"
  by (simp add: historial_ok_def empty_db_def)

lemma historial_ok_client_create: "historial_ok d \<Longrightarrow> historial_ok (snd (client_create f d))"
  by (rule historial_ok_same [of _ d]) (simp_all add: client_create_def Let_def)

lemma historial_ok_client_update: "historial_ok d \<Longrightarrow> historial_ok (snd (client_update i f d))"
  by (rule historial_ok_same [of _ d])
     (simp_all add: client_update_def Let_def split: option.splits)

lemma historial_ok_add_part: "historial_ok d \<Longrightarrow> historial_ok (snd (add_part i f d))"
  by (rule historial_ok_same [of _ d]) (simp_all add: add_part_def Let_def split: option.splits)

lemma historial_ok_del_part: "historial_ok d \<Longrightarrow> historial_ok (snd (del_part i j d))"
  by (rule historial_ok_same [of _ d]) (simp_all add: del_part_def split: option.splits)

lemma historial_ok_cash_create: "historial_ok d \<Longrightarrow> historial_ok (snd (cash_create f d))"
  by (rule historial_ok_same [of _ d]) (simp_all add: cash_create_def Let_def)

lemma historial_ok_order_update: "historial_ok d \<Longrightarrow> historial_ok (snd (order_update i f d))"
proof -
  assume ok: "historial_ok d"
  show ?thesis
  proof (cases "find (\<lambda>r. ro_id r = i) (orders d)")
    case None
    then show ?thesis using ok by (simp add: order_update_def)
  next
    case (Some order)
    note found = Some
    show ?thesis
    proof (cases "query_get cl_id (clients d) (f ''client_id'')")
      case None
      with found show ?thesis using ok by (simp add: order_update_def)
    next
      case (Some cl)
      let ?g = "\<lambda>r. r\<lparr>ro_client_id := cl_id cl,
                      ro_marca := py_strip (form_get f ''marca'' []),
                      ro_modelo := py_strip (form_get f ''modelo'' []),
                      ro_imei := py_strip (form_get f ''imei'' []),
                      ro_accesorios := py_strip (form_get f ''accesorios'' []),
                      ro_clave_desbloqueo := py_strip (form_get f ''clave_desbloqueo'' []),
                      ro_problema_reportado := py_strip (form_get f ''problema_reportado'' []),
                      ro_diagnostico := py_strip (form_get f ''diagnostico'' []),
                      ro_costo_estimado := parse_float (f ''costo_estimado''),
                      ro_senia := Some (opt_or0 (parse_float (f ''senia'')))\<rparr>"
      have o: "orders (snd (order_update i f d)) =
          map (\<lambda>r. if ro_id r = i then ?g r else r) (orders d)"
        using found Some by (simp add: order_update_def)
      have h: "historial (snd (order_update i f d)) = historial d"
        using found Some by (simp add: order_update_def)
      have g: "ro_id (?g r) = ro_id r \<and> ro_estado (?g r) = ro_estado r" for r
        by simp
      show ?thesis
        by (rule historial_ok_update [OF ok o g h])
    qed
  qed
qed

lemma order_change_status_success:
  assumes "fst (order_change_status i f d) =
             Redirect ''order_detail'' ''Estado actualizado.'' ''success''"
  shows "\<exists>e h. f ''estado'' = Some e \<and>
           orders (snd (order_change_status i f d)) =
             map (\<lambda>r. if ro_id r = i then r\<lparr>ro_estado := e\<rparr> else r) (orders d) \<and>
           historial (snd (order_change_status i f d)) = historial d @ [h] \<and>
           sh_order_id h = i \<and> sh_estado h = e"
proof (cases "find (\<lambda>r. ro_id r = i) (orders d)")
  case None
  with assms show ?thesis by (simp add: order_change_status_def)
next
  case (Some order)
  show ?thesis
  proof (cases "in_order_states (f ''estado'')")
    case False
    with assms Some show ?thesis by (simp add: order_change_status_def)
  next
    case True
    then obtain e where e: "f ''estado'' = Some e"
      by (cases "f ''estado''") (auto simp: in_order_states_def)
    show ?thesis
      using Some True e
      by (simp add: order_change_status_def Let_def historial_add_status_history)
  qed
qed

lemma order_change_status_failure:
  assumes "fst (order_change_status i f d) \<noteq>
             Redirect ''order_detail'' ''Estado actualizado.'' ''success''"
  shows "snd (order_change_status i f d) = d"
  using assms by (simp add: order_change_status_def Let_def split: option.splits if_splits)

lemma historial_ok_order_change_status:
  assumes "historial_ok d"
  shows "historial_ok (snd (order_change_status i f d))"
proof (cases "fst (order_change_status i f d) =
    Redirect ''order_detail'' ''Estado actualizado.'' ''success''")
  case True
  from order_change_status_success [OF True] obtain e h where
    "orders (snd (order_change_status i f d)) =
       map (\<lambda>r. if ro_id r = i then r\<lparr>ro_estado := e\<rparr> else r) (orders d)"
    "historial (snd (order_change_status i f d)) = historial d @ [h]"
    "sh_order_id h = i" "sh_estado h = e"
    by blast
  then show ?thesis
    by (rule historial_ok_change [OF assms])
next
  case False
  then show ?thesis
    using assms by (simp add: order_change_status_failure)
qed

lemma order_create_success:
  assumes "fst (order_create f tok d) = Redirect ''orders_list'' msg ''success''"
  shows "\<exists>order h. orders (snd (order_create f tok d)) = orders d @ [order] \<and>
           ro_id order = next_id (map ro_id (orders d)) \<and>
           ro_estado order = form_get f ''estado'' ''recibido'' \<and>
           historial (snd (order_create f tok d)) = historial d @ [h] \<and>
           sh_order_id h = ro_id order \<and> sh_estado h = ro_estado order"
  using assms
  by (auto simp: order_create_def Let_def historial_add_status_history
      split: option.splits if_splits)

lemma order_create_failure:
  assumes "\<forall>msg. fst (order_create f tok d) \<noteq> Redirect ''orders_list'' msg ''success''"
  shows "snd (order_create f tok d) = d"
  using assms by (auto simp: order_create_def Let_def split: option.splits if_splits)

lemma historial_ok_order_create:
  assumes "historial_ok d"
  shows "historial_ok (snd (order_create f tok d))"
proof (cases "\<exists>msg. fst (order_create f tok d) = Redirect ''orders_list'' msg ''success''")
  case True
  then obtain msg where "fst (order_create f tok d) = Redirect ''orders_list'' msg ''success''"
    by blast
  from order_create_success [OF this] obtain order h where
    "orders (snd (order_create f tok d)) = orders d @ [order]"
    "ro_id order = next_id (map ro_id (orders d))"
    "historial (snd (order_create f tok d)) = historial d @ [] @ [h]"
    "sh_order_id h = ro_id order" "sh_estado h = ro_estado order"
    by auto
  then show ?thesis
    using historial_ok_new_order [OF assms, of _ order "[]" h] by simp
next
  case False
  then show ?thesis
    using assms by (simp add: order_create_failure)
qed

lemma historial_ok_seed:
  assumes "historial_ok d"
  shows "historial_ok (seed tok d)"
proof (cases "clients d \<noteq> []")
  case True
  then show ?thesis
    using assms by (simp add: seed_def)
next
  case False
  note empty = False
  show ?thesis
  proof (cases "tok \<in> set (map ro_token_publico (orders d))")
    case True
    have "orders (seed tok d) = orders d" "historial (seed tok d) = historial d"
      using empty True by (simp_all add: seed_def Let_def)
    then show ?thesis
      using assms by (rule historial_ok_same)
  next
    case False
    let ?n = "next_id (map ro_id (orders d))"
    let ?o1 = "\<lparr>ro_id = ?n, ro_client_id = next_id (map cl_id (clients d)),
                 ro_marca = ''Samsung'', ro_modelo = ''A54'', ro_imei = ''3598...'',
                 ro_accesorios = ''Funda'', ro_clave_desbloqueo = ''1-2-5-8'',
                 ro_problema_reportado = ''No carga'', ro_diagnostico = ''Conector'',
                 ro_costo_estimado = Some (Fin 45000), ro_senia = Some (Fin 10000),
                 ro_estado = ''diagnostico'', ro_token_publico = tok\<rparr>"
    let ?h1 = "\<lparr>sh_id = next_id (map sh_id (historial d)), sh_order_id = ?n,
                 sh_estado = ''recibido'', sh_nota = ''Ingreso''\<rparr>"
    let ?h2 = "\<lparr>sh_id = next_id (map sh_id (historial d @ [?h1])), sh_order_id = ?n,
                 sh_estado = ''diagnostico'', sh_nota = ''Se detecta conector''\<rparr>"
    have o: "orders (seed tok d) = orders d @ [?o1]"
      using empty False by (simp add: seed_def Let_def)
    have h: "historial (seed tok d) = historial d @ [?h1] @ [?h2]"
      using empty False by (simp add: seed_def Let_def historial_add_status_history)
    show ?thesis
      by (rule historial_ok_new_order [OF assms o _ h]) simp_all
  qed
qed

lemma historial_ok_handle: "historial_ok d \<Longrightarrow> historial_ok (handle r d)"
  by (cases r)
     (simp_all add: historial_ok_seed historial_ok_client_create historial_ok_client_update
        historial_ok_order_create historial_ok_order_update historial_ok_order_change_status
        historial_ok_add_part historial_ok_del_part historial_ok_cash_create)

lemma historial_ok_run: "historial_ok d \<Longrightarrow> historial_ok (run rs d)"
  unfolding run_def by (induction rs arbitrary: d) (simp_all add: historial_ok_handle)

text \<open>
  Between requests the history matches: after any list of requests run to their ends from
  the empty database, every order has a history entry and the latest one carries the
  order's status.
\<close>

lemma historial_ok_after_requests: "historial_ok (run rs empty_db)"
  by (rule historial_ok_run [OF historial_ok_empty])

text \<open>The last commit of a run is the state the handler leaves.\<close>

lemma order_create_last_commit:
  "snd (order_create f tok d) = last (d # order_create_commits f tok d)"
  by (simp add: order_create_def order_create_commits_def Let_def split: option.splits)

lemma seed_last_commit: "seed tok d = last (d # seed_commits tok d)"
  by (simp add: seed_def seed_commits_def Let_def)

text \<open>
  Claim C6 (the code departs from it). \<open>order_change_status\<close> writes the new status and its
  history entry in one commit, but \<open>order_create\<close> commits the new order at line 431 and
  adds its history entry only afterwards, in the commit of line 433 (\<open>seed\<close> does the same
  at lines 188 and 193). As of the first commit of an order creation on the seeded
  database, the database holds order 2 with no history entry: a reachable state in which
  the history of an order is empty.
\<close>

theorem order_create_commits_order_before_history:
  "reachable
     (hd (order_create_commits
            [''client_id'' \<mapsto> ''1'', ''marca'' \<mapsto> ''Motorola'', ''modelo'' \<mapsto> ''G8'',
             ''problema_reportado'' \<mapsto> ''Pantalla rota'']
            ''ZZZZZZZZZZ'' demo_db)) \<and>
   \<not> historial_ok
     (hd (order_create_commits
            [''client_id'' \<mapsto> ''1'', ''marca'' \<mapsto> ''Motorola'', ''modelo'' \<mapsto> ''G8'',
             ''problema_reportado'' \<mapsto> ''Pantalla rota'']
            ''ZZZZZZZZZZ'' demo_db)) \<and>
   map ro_id
     (orders (hd (order_create_commits
            [''client_id'' \<mapsto> ''1'', ''marca'' \<mapsto> ''Motorola'', ''modelo'' \<mapsto> ''G8'',
             ''problema_reportado'' \<mapsto> ''Pantalla rota'']
            ''ZZZZZZZZZZ'' demo_db))) = [1, 2] \<and>
   map sh_order_id
     (historial (hd (order_create_commits
            [''client_id'' \<mapsto> ''1'', ''marca'' \<mapsto> ''Motorola'', ''modelo'' \<mapsto> ''G8'',
             ''problema_reportado'' \<mapsto> ''Pantalla rota'']
            ''ZZZZZZZZZZ'' demo_db))) = [1, 1]"
proof -
  let ?cs = "order_create_commits
            [''client_id'' \<mapsto> ''1'', ''marca'' \<mapsto> ''Motorola'', ''modelo'' \<mapsto> ''G8'',
             ''problema_reportado'' \<mapsto> ''Pantalla rota'']
            ''ZZZZZZZZZZ'' demo_db"
  have "reachable (handle (Seed ''ABCDEFGHJK'') empty_db)"
    by (rule reach_step [OF reach_empty])
  then have r: "reachable demo_db"
    by (simp add: demo_db_def)
  have ne: "?cs \<noteq> []"
    unfolding demo_db_eval by code_simp
  then have "hd ?cs \<in> set ?cs"
    by simp
  then have r1: "reachable (hd ?cs)"
    by (rule reach_order_create_commit [OF r])
  have bad: "\<not> historial_ok (hd ?cs)"
    unfolding demo_db_eval by code_simp
  have ids: "map ro_id (orders (hd ?cs)) = [1, 2] \<and>
      map sh_order_id (historial (hd ?cs)) = [1, 1]"
    unfolding demo_db_eval by code_simp
  show ?thesis
    using r1 bad ids by blast
qed

theorem order_create_commits_order_before_history_witness:
  "\<exists>d. reachable d \<and> \<not> historial_ok d \<and>
     map ro_id (orders d) = [1, 2] \<and> map sh_order_id (historial d) = [1, 1]"
  using order_create_commits_order_before_history by (rule exI)

text \<open>
  Claim C7 (the code departs from it). \<open>order_change_status\<close> checks the new status against
  \<open>ORDER_STATES\<close>, but \<open>order_create\<close> stores the \<open>estado\<close> field of the form as it arrives.
  After the seed command and one order creation whose form carries \<open>estado=roto\<close>, the
  database holds an order whose status is not one of the seven codes.
\<close>

theorem order_create_unvalidated_estado:
  "map ro_estado
     (orders (run [Seed ''ABCDEFGHJK'',
                   Order_create
                     [''client_id'' \<mapsto> ''1'', ''marca'' \<mapsto> ''Motorola'', ''modelo'' \<mapsto> ''G8'',
                      ''problema_reportado'' \<mapsto> ''Pantalla rota'', ''estado'' \<mapsto> ''roto'']
                     ''ZZZZZZZZZZ''] empty_db)) = [''diagnostico'', ''roto''] \<and>
   \<not> in_order_states (Some ''roto'')"
  by code_simp

text \<open>
  Claim C9 (the code departs from it). \<open>cash_create\<close> rejects an amount with \<open>monto <= 0\<close>.
  The text \<open>nan\<close> parses to the float nan, which is true as a condition and for which
  \<open>nan <= 0\<close> is false: the request is accepted and an entry whose amount is nan, hence not
  greater than 0, is written.
\<close>

theorem cash_create_accepts_nan:
  "cash_create [''tipo'' \<mapsto> ''entrada'', ''concepto'' \<mapsto> ''ajuste'', ''monto'' \<mapsto> ''nan'']
     empty_db =
     (Redirect ''cash_list'' ''Movimiento registrado.'' ''success'',
      empty_db\<lparr>caja := [\<lparr>ce_id = 1, ce_tipo = ''entrada'', ce_concepto = ''ajuste'',
                           ce_monto = NaN, ce_order_id = None\<rparr>]\<rparr>) \<and>
   \<not> pf_gt0 NaN"
  by code_simp


section \<open>Whole numbers are exact in binary64\<close>







lemma whole_amount_of_int [simp]: "whole_amount (Fin (of_int k)) = (0 \<le> k)"
  by (simp add: whole_amount_def)

lemma whole_part_of_int [simp]: "whole_part (Fin (of_int k)) = k"
  by (simp add: whole_part_def)









section \<open>The same status change twice\<close>














end
